theory Spec2Isabelle
  imports Complex_Main "HOL-Library.Sublist" "HOL-Library.AList"
begin

section \<open>Python values used by the application\<close>

text \<open>
  A Python \<open>str\<close> is modelled as a \<open>string\<close>, one \<open>char\<close> per code point (the model
  covers the code points below 256). Python integers are \<open>int\<close>. A Python float is
  an IEEE 754 binary64 number; the model takes it as the rational number that it is, and
  rounds the exact result of every float operation to the nearest binary64 number.
\<close>

text \<open>\<open>str.isspace\<close> on the code points below 256.\<close>

definition isspace :: "char \<Rightarrow> bool" where
  "isspace c = (of_char c \<in> {9, 10, 11, 12, 13, 28, 29, 30, 31, 32, 133, 160 :: nat})"

text \<open>\<open>s.strip()\<close>: whitespace removed at both ends.\<close>

definition strip :: "string \<Rightarrow> string" where
  "strip s = rev (dropWhile isspace (rev (dropWhile isspace s)))"

text \<open>\<open>str(n)\<close> for an integer: decimal digits, with a minus sign when negative.\<close>

definition digit_char :: "nat \<Rightarrow> char" where
  "digit_char d = ''0123456789'' ! d"

fun str_nat :: "nat \<Rightarrow> string" where
  "str_nat n = (if n < 10 then [digit_char n] else str_nat (n div 10) @ [digit_char (n mod 10)])"

declare str_nat.simps [simp del]

definition str_int :: "int \<Rightarrow> string" where
  "str_int i = (if i < 0 then CHR ''-'' # str_nat (nat (- i)) else str_nat (nat i))"

text \<open>\<open>sep.join(xs)\<close>.\<close>

fun join :: "string \<Rightarrow> string list \<Rightarrow> string" where
  "join sep [] = []"
| "join sep [x] = x"
| "join sep (x # y # ys) = x @ sep @ join sep (y # ys)"

text \<open>\<open>s.split(c)\<close> for a one-character separator: never empty, keeps empty pieces.\<close>

fun split_on :: "char \<Rightarrow> string \<Rightarrow> string list" where
  "split_on c [] = [[]]"
| "split_on c (x # xs) =
     (if x = c then [] # split_on c xs
      else (case split_on c xs of [] \<Rightarrow> [[x]] | w # ws \<Rightarrow> (x # w) # ws))"

text \<open>\<open>sub in s\<close>: \<open>sub\<close> occurs in \<open>s\<close> as a contiguous substring.\<close>

primrec str_in :: "string \<Rightarrow> string \<Rightarrow> bool" where
  "str_in sub [] = (sub = [])"
| "str_in sub (x # xs) = (prefix sub (x # xs) \<or> str_in sub xs)"

text \<open>\<open>s.lower()\<close> on the code points below 256.\<close>

definition lower_char :: "char \<Rightarrow> char" where
  "lower_char c =
     (let n = (of_char c :: nat)
      in if (65 \<le> n \<and> n \<le> 90) \<or> (192 \<le> n \<and> n \<le> 222 \<and> n \<noteq> 215) then char_of (n + 32) else c)"

definition lower :: "string \<Rightarrow> string" where
  "lower s = map lower_char s"

text \<open>\<open>s.endswith(suf)\<close>.\<close>

definition endswith :: "string \<Rightarrow> string \<Rightarrow> bool" where
  "endswith s suf = suffix suf s"

text \<open>
  Slice indices as Python adjusts them for a sequence of length \<open>n\<close>: a negative index
  counts from the end, and the result is clamped to \<open>0..n\<close>.
\<close>

definition adjust :: "int \<Rightarrow> nat \<Rightarrow> nat" where
  "adjust i n = (if i < 0 then nat (max 0 (i + int n)) else min (nat i) n)"

text \<open>\<open>s[start:end]\<close>.\<close>

definition slice :: "string \<Rightarrow> int \<Rightarrow> int \<Rightarrow> string" where
  "slice s start end =
     (let a = adjust start (length s); b = adjust end (length s) in take (b - a) (drop a s))"

text \<open>
  \<open>s.rfind(c, start, end)\<close> for a one-character \<open>c\<close>: the highest index in the adjusted
  range that holds \<open>c\<close>, or \<open>-1\<close>. \<open>rfind_down s c a k\<close> looks at the \<open>k\<close> positions
  from \<open>a\<close> on, highest first.
\<close>

primrec rfind_down :: "string \<Rightarrow> char \<Rightarrow> nat \<Rightarrow> nat \<Rightarrow> int" where
  "rfind_down s c a 0 = - 1"
| "rfind_down s c a (Suc k) = (if s ! (a + k) = c then int (a + k) else rfind_down s c a k)"

definition rfind :: "string \<Rightarrow> char \<Rightarrow> int \<Rightarrow> int \<Rightarrow> int" where
  "rfind s c start end =
     (let a = adjust start (length s); b = adjust end (length s) in rfind_down s c a (b - a))"

subsection \<open>Floats\<close>

text \<open>\<open>n.bit_length()\<close> for \<open>n \<ge> 0\<close>, and the power \<open>2 ** e\<close> as a rational.\<close>

fun bit_length :: "int \<Rightarrow> int" where
  "bit_length n = (if n \<le> 0 then 0 else 1 + bit_length (n div 2))"

declare bit_length.simps [simp del]

definition pow2 :: "int \<Rightarrow> rat" where
  "pow2 e = (if 0 \<le> e then 2 ^ nat e else 1 / 2 ^ nat (- e))"

text \<open>Rounding to the nearest integer, a tie going to the even one.\<close>

definition round_half_even :: "rat \<Rightarrow> int" where
  "round_half_even y =
     (let f = \<lfloor>y\<rfloor>; d = y - of_int f
      in if d < 1 / 2 then f else if d > 1 / 2 then f + 1 else if even f then f else f + 1)"

text \<open>The exponent \<open>e\<close> of a positive rational \<open>x\<close>: \<open>2 ** e \<le> x < 2 ** (e + 1)\<close>.\<close>

definition binary_exponent :: "rat \<Rightarrow> int" where
  "binary_exponent x =
     (let (p, q) = quotient_of x;
          e0 = bit_length p - bit_length q
      in if x < pow2 e0 then e0 - 1 else e0)"

text \<open>
  The binary64 number nearest to a rational (round to nearest, ties to even): 53
  significant bits, and below \<open>2 ** -1022\<close> the fixed spacing \<open>2 ** -1074\<close> of the
  subnormal numbers. The numbers of this application stay far below the largest binary64
  number (they come from lengths of strings and lists, which are below \<open>2 ** 63\<close>), so
  overflow is not modelled.
\<close>

definition nearest_double :: "rat \<Rightarrow> rat" where
  "nearest_double x =
     (if x = 0 then 0
      else (let a = \<bar>x\<bar>;
                e = max (binary_exponent a) (- 1022);
                q = pow2 (e - 52)
            in sgn x * of_int (round_half_even (a / q)) * q))"

text \<open>
  A float literal, \<open>float(n)\<close> for an integer, the operations \<open>+\<close>, \<open>*\<close> and \<open>/\<close> on
  floats, and the true division \<open>a / b\<close> of two integers: each is the exact result,
  rounded once.
\<close>

definition float_lit :: "rat \<Rightarrow> rat" where
  "float_lit r = nearest_double r"

definition float_of_int :: "int \<Rightarrow> rat" where
  "float_of_int n = nearest_double (of_int n)"

definition float_add :: "rat \<Rightarrow> rat \<Rightarrow> rat" where
  "float_add a b = nearest_double (a + b)"

definition float_mul :: "rat \<Rightarrow> rat \<Rightarrow> rat" where
  "float_mul a b = nearest_double (a * b)"

definition float_div :: "rat \<Rightarrow> rat \<Rightarrow> rat" where
  "float_div a b = nearest_double (a / b)"

definition int_truediv :: "int \<Rightarrow> int \<Rightarrow> rat" where
  "int_truediv a b = nearest_double (of_int a / of_int b)"

text \<open>
  \<open>round(x, 2)\<close> for a float \<open>x\<close>: the exact value of \<open>x\<close> is rounded to two decimals (a
  tie going to the even digit), and the result is the float nearest to that decimal.
\<close>

definition round2 :: "rat \<Rightarrow> rat" where
  "round2 x = nearest_double (of_int (round_half_even (x * 100)) / 100)"

text \<open>
  A raised exception: its class and its message (\<open>str(e)\<close> is the message).
\<close>

datatype py_exception = PyException (exc_type: string) (exc_msg: string)

section \<open>utils.py\<close>

subsection \<open>\<open>chunk_text\<close>\<close>

text \<open>
  The end of the window that starts at \<open>start\<close>: \<open>start + chunk_size\<close>, moved back to
  just after the last sentence terminator of the window when the window ends before the
  text does and that terminator lies beyond the middle of the window.
\<close>

definition window_end :: "string \<Rightarrow> int \<Rightarrow> int \<Rightarrow> int" where
  "window_end text chunk_size start =
     (let end = start + chunk_size
      in if end < int (length text) then
           (let last_period = rfind text CHR ''.'' start end;
                last_exclaim = rfind text CHR ''!'' start end;
                last_question = rfind text CHR ''?'' start end;
                sentence_end = max (max last_period last_exclaim) last_question
            in if sentence_end > start + chunk_size div 2 then sentence_end + 1 else end)
         else end)"

text \<open>
  The \<open>while\<close> loop of \<open>chunk_text\<close>, from the state (\<open>start\<close>, \<open>chunks\<close>). The loop has
  no bound in the source, so the model is a partial function: \<open>None\<close> means that the
  loop does not return.
\<close>

partial_function (option) chunk_loop ::
  "string \<Rightarrow> int \<Rightarrow> int \<Rightarrow> int \<Rightarrow> string list \<Rightarrow> string list option" where
  "chunk_loop text chunk_size chunk_overlap start chunks =
     (if start < int (length text) then
        (let end = window_end text chunk_size start;
             chunk = strip (slice text start end);
             chunks' = (if chunk \<noteq> [] then chunks @ [chunk] else chunks);
             start' = end - chunk_overlap
         in if start' \<ge> int (length text) then Some chunks'
            else chunk_loop text chunk_size chunk_overlap start' chunks')
      else Some chunks)"

declare chunk_loop.simps [code]

definition chunk_text :: "string \<Rightarrow> int \<Rightarrow> int \<Rightarrow> string list option" where
  "chunk_text text chunk_size chunk_overlap =
     (if text = [] then Some [] else chunk_loop text chunk_size chunk_overlap 0 [])"

subsection \<open>Retrieved documents and \<open>create_citation\<close>\<close>

text \<open>
  A retrieved chunk (a langchain \<open>Document\<close>): its text and its metadata dictionary.
  The dictionary has the keys that \<open>process_document\<close> writes; a field is \<open>None\<close>
  when the key is absent, which is what the \<open>.get(key, default)\<close> calls provide for.
\<close>

record doc_meta =
  source :: "string option"
  page_number :: "int option"
  chunk_id :: "int option"
  file_type :: "string option"

record document =
  page_content :: string
  metadata :: doc_meta

text \<open>\<open>metadata.get('source', 'Unknown')\<close> and \<open>metadata.get('page_number', 'Unknown')\<close>,
  the latter as the f-string prints it.\<close>

definition get_source :: "document \<Rightarrow> string" where
  "get_source doc = (case source (metadata doc) of None \<Rightarrow> ''Unknown'' | Some s \<Rightarrow> s)"

definition get_page_str :: "document \<Rightarrow> string" where
  "get_page_str doc = (case page_number (metadata doc) of None \<Rightarrow> ''Unknown'' | Some p \<Rightarrow> str_int p)"

text \<open>The \<open>for\<close> loop of \<open>create_citation\<close>, from the state (\<open>citations\<close>, \<open>seen\<close>).\<close>

fun create_citation_loop :: "document list \<Rightarrow> string list \<Rightarrow> string set \<Rightarrow> string list" where
  "create_citation_loop [] citations seen = citations"
| "create_citation_loop (doc # source_docs) citations seen =
     (let source = get_source doc;
          page = get_page_str doc;
          citation_key = source @ ''_'' @ page
      in if citation_key \<notin> seen
         then create_citation_loop source_docs
                (citations @ [source @ '' (Page '' @ page @ '')'']) (insert citation_key seen)
         else create_citation_loop source_docs citations seen)"

definition create_citation :: "document list \<Rightarrow> string" where
  "create_citation source_docs = join ''; '' (create_citation_loop source_docs [] {})"

section \<open>qa\_system.py\<close>

text \<open>An entry of the source-info list built by \<open>_extract_source_info\<close>.\<close>

record source_info =
  filename :: string
  info_page_number :: int
  info_chunk_id :: int
  info_file_type :: string
  content_preview :: string

text \<open>\<open>metadata.get('page_number', 1)\<close>: the default page number here is \<open>1\<close>.\<close>

definition get_page_int :: "document \<Rightarrow> int" where
  "get_page_int doc = (case page_number (metadata doc) of None \<Rightarrow> 1 | Some p \<Rightarrow> p)"

definition make_source_info :: "document \<Rightarrow> source_info" where
  "make_source_info doc =
     \<lparr>filename = get_source doc,
      info_page_number = get_page_int doc,
      info_chunk_id = (case chunk_id (metadata doc) of None \<Rightarrow> 0 | Some i \<Rightarrow> i),
      info_file_type = (case file_type (metadata doc) of None \<Rightarrow> ''unknown'' | Some t \<Rightarrow> t),
      content_preview =
        (if length (page_content doc) > 200 then take 200 (page_content doc) @ ''...''
         else page_content doc)\<rparr>"

text \<open>The \<open>for\<close> loop of \<open>_extract_source_info\<close>, from the state
  (\<open>sources_info\<close>, \<open>seen_sources\<close>).\<close>

fun extract_source_info_loop ::
  "document list \<Rightarrow> source_info list \<Rightarrow> string set \<Rightarrow> source_info list" where
  "extract_source_info_loop [] sources_info seen_sources = sources_info"
| "extract_source_info_loop (doc # source_docs) sources_info seen_sources =
     (let source_key = get_source doc @ ''_'' @ str_int (get_page_int doc)
      in if source_key \<notin> seen_sources
         then extract_source_info_loop source_docs
                (sources_info @ [make_source_info doc]) (insert source_key seen_sources)
         else extract_source_info_loop source_docs sources_info seen_sources)"

definition extract_source_info :: "document list \<Rightarrow> source_info list" where
  "extract_source_info source_docs = extract_source_info_loop source_docs [] {}"

text \<open>\<open>_extract_key_phrases_from_answer\<close>.\<close>

definition important_words :: "string list" where
  "important_words = [''important'', ''key'', ''significant'', ''main'', ''primary'', ''essential'']"

definition extract_key_phrases_from_answer :: "string \<Rightarrow> string list" where
  "extract_key_phrases_from_answer answer =
     take 3
       (filter
          (\<lambda>sentence. length sentence > 20 \<and> length sentence < 150 \<and>
             list_ex (\<lambda>word. str_in word (lower sentence)) important_words)
          (map strip (split_on CHR ''.'' answer)))"

text \<open>
  \<open>_calculate_confidence\<close>. The sum of the lengths and the number of sources are
  integers; their quotient and everything after it are floats. \<open>0.2\<close> and \<open>0.3\<close> are the
  floats nearest to \<open>2/10\<close> and \<open>3/10\<close>.
\<close>

definition calculate_confidence :: "document list \<Rightarrow> rat" where
  "calculate_confidence source_docs =
     (if source_docs = [] then 0
      else
        (let num_sources = int (length source_docs);
             avg_content_length =
               int_truediv (int (sum_list (map (\<lambda>doc. length (page_content doc)) source_docs)))
                 num_sources;
             confidence =
               min 1 (float_add (float_mul (float_of_int num_sources) (float_lit (2 / 10)))
                        (float_mul (float_div avg_content_length (float_of_int 1000))
                           (float_lit (3 / 10))))
         in round2 confidence))"

text \<open>
  The dictionary that \<open>get_enhanced_response\<close> returns.
\<close>

record answer_result =
  answer :: string
  citations :: string
  sources_info :: "source_info list"
  source_documents :: "document list"
  key_phrases :: "string list"
  confidence :: rat

text \<open>
  The metadata that \<open>process_document\<close> records for an uploaded file, and one page of
  its \<open>page_info\<close>.
\<close>

record page_entry =
  page :: int
  content :: string

record file_metadata =
  file_id :: string
  md_filename :: string
  md_file_type :: string
  upload_time :: string
  total_chunks :: nat
  page_info :: "page_entry list"
  summary :: string

text \<open>
  The state of an \<open>EnhancedQASystem\<close>. The retrieval chain and the language model are
  external: the chain maps a question to an answer and the retrieved documents, or
  raises; the model maps a prompt to a text, or raises. \<open>qa_chain\<close> is \<open>None\<close> until
  \<open>initialize_vectorstore\<close> has succeeded. \<open>document_metadata\<close> is a dictionary from
  file ids, in insertion order.
\<close>

record qa_system =
  qa_chain :: "(string \<Rightarrow> py_exception + string \<times> document list) option"
  llm_invoke :: "string \<Rightarrow> py_exception + string"
  document_metadata :: "(string \<times> file_metadata) list"

text \<open>The exception that calling \<open>None\<close> raises.\<close>

definition none_not_callable :: py_exception where
  "none_not_callable =
     PyException ''TypeError'' ([CHR 0x27] @ ''NoneType'' @ [CHR 0x27] @ '' object is not callable'')"

text \<open>The body of the \<open>try\<close> block of \<open>get_enhanced_response\<close>.\<close>

definition enhanced_response_body :: "qa_system \<Rightarrow> string \<Rightarrow> py_exception + answer_result" where
  "enhanced_response_body self question =
     (case qa_chain self of
        None \<Rightarrow> Inl none_not_callable
      | Some chain \<Rightarrow>
          (case chain question of
             Inl e \<Rightarrow> Inl e
           | Inr (result, source_docs) \<Rightarrow>
               Inr \<lparr>answer = result,
                    citations = create_citation source_docs,
                    sources_info = extract_source_info source_docs,
                    source_documents = source_docs,
                    key_phrases = extract_key_phrases_from_answer result,
                    confidence = calculate_confidence source_docs\<rparr>))"

text \<open>\<open>get_enhanced_response\<close>: the \<open>try\<close> block with its \<open>except Exception\<close> handler.\<close>

definition get_enhanced_response :: "qa_system \<Rightarrow> string \<Rightarrow> answer_result" where
  "get_enhanced_response self question =
     (case enhanced_response_body self question of
        Inr response \<Rightarrow> response
      | Inl e \<Rightarrow>
          \<lparr>answer = ''Error generating response: '' @ exc_msg e,
           citations = [],
           sources_info = [],
           source_documents = [],
           key_phrases = [],
           confidence = 0\<rparr>)"

text \<open>\<open>generate_executive_summary\<close>. \<open>chr(10)\<close> is the line feed.\<close>

definition summary_prompt :: "string list \<Rightarrow> string" where
  "summary_prompt summaries =
     ''Create a comprehensive executive summary combining the following individual document summaries:''
     @ [CHR 0x0A, CHR 0x0A] @ join [CHR 0x0A] summaries @ [CHR 0x0A, CHR 0x0A]
     @ ''Provide a unified executive summary highlighting key themes and insights across all documents:''"

definition generate_executive_summary :: "qa_system \<Rightarrow> string" where
  "generate_executive_summary self =
     (let summaries =
            map (\<lambda>(fid, meta). ''**'' @ md_filename meta @ ''**: '' @ summary meta)
              (document_metadata self)
      in if length summaries > 1 then
           (case llm_invoke self (summary_prompt summaries) of
              Inr response_content \<Rightarrow> response_content
            | Inl e \<Rightarrow> ''Error generating executive summary: '' @ exc_msg e)
         else if length summaries = 1 then summaries ! 0
         else ''No documents loaded for summary generation.'')"

section \<open>document\_processor.py\<close>

text \<open>
  An uploaded file: its name and its bytes. What lies outside the processor is a
  parameter: \<open>fs_error\<close> says whether a file-system call of \<open>process_document\<close>
  (writing or deleting the temporary copy) raises for a file; \<open>load_pdf\<close> and
  \<open>load_txt\<close> extract the text and never raise (they catch every exception and return
  an empty text); \<open>summary_llm\<close> is the language model behind \<open>_generate_summary\<close>;
  \<open>timestamp\<close> is the clock; \<open>uuid4\<close> gives the identifier generated for the
  \<open>i\<close>-th file of a batch.
\<close>

record uploaded_file =
  name :: string
  getvalue :: string

record processor_env =
  fs_error :: "uploaded_file \<Rightarrow> py_exception option"
  load_pdf :: "uploaded_file \<Rightarrow> string \<times> page_entry list"
  load_txt :: "uploaded_file \<Rightarrow> string"
  summary_llm :: "string \<Rightarrow> py_exception + string"
  timestamp :: "uploaded_file \<Rightarrow> string"
  uuid4 :: "nat \<Rightarrow> string"

text \<open>
  What \<open>process_document\<close> and \<open>process_multiple_documents\<close> return: the triple
  \<open>(False, message, {})\<close>, or \<open>(True, message, result)\<close> with a result dictionary.
\<close>

datatype 'r status = Failure string | Success string 'r

record process_result =
  documents :: "document list"
  result_metadata :: file_metadata

record batch_result =
  all_documents :: "document list"
  all_metadata :: "(string \<times> file_metadata) list"

text \<open>\<open>_generate_summary\<close>: the model's answer, or the fixed text when the call raises.\<close>

definition generate_summary :: "processor_env \<Rightarrow> string \<Rightarrow> string" where
  "generate_summary env text_sample =
     (case summary_llm env
             (''Generate a concise executive summary (3-4 sentences) of the following document content:''
              @ [CHR 0x0A, CHR 0x0A] @ text_sample @ [CHR 0x0A, CHR 0x0A] @ ''Summary:'') of
        Inr response_content \<Rightarrow> response_content
      | Inl e \<Rightarrow> ''Summary generation failed - document content available for querying.'')"

text \<open>\<open>_find_page_number\<close>: the first page whose text holds the first 100 characters of
  the chunk, or page 1.\<close>

fun find_page_number :: "string \<Rightarrow> page_entry list \<Rightarrow> int" where
  "find_page_number chunk [] = 1"
| "find_page_number chunk (p # ps) =
     (if str_in (take 100 chunk) (content p) then page p else find_page_number chunk ps)"

text \<open>\<open>name.split('.')[-1]\<close>.\<close>

definition extension :: "string \<Rightarrow> string" where
  "extension n = last (split_on CHR ''.'' n)"

text \<open>\<open>enumerate(chunks)\<close> turned into the documents of a file.\<close>

definition make_documents :: "uploaded_file \<Rightarrow> string \<Rightarrow> page_entry list \<Rightarrow> string list \<Rightarrow> document list" where
  "make_documents uploaded fid pinfo chunks =
     map (\<lambda>(i, chunk).
            \<lparr>page_content = chunk,
             metadata = \<lparr>source = Some (name uploaded),
                         page_number = Some (find_page_number chunk pinfo),
                         chunk_id = Some (int i),
                         file_type = Some (extension (name uploaded))\<rparr>\<rparr>)
         (enumerate 0 chunks)"

text \<open>
  \<open>process_document\<close>, called with a file id. \<open>None\<close> means that the call does not
  return (the chunking loop has no bound).
\<close>

definition process_document ::
  "processor_env \<Rightarrow> uploaded_file \<Rightarrow> string \<Rightarrow> process_result status option" where
  "process_document env uploaded fid =
     (case fs_error env uploaded of
        Some e \<Rightarrow> Some (Failure (''Error processing document: '' @ exc_msg e))
      | None \<Rightarrow>
          if \<not> endswith (name uploaded) ''.pdf'' \<and> \<not> endswith (name uploaded) ''.txt''
          then Some (Failure ''Unsupported file type. Please upload PDF or TXT files.'')
          else
            (let (text, pinfo) =
                   (if endswith (name uploaded) ''.pdf'' then load_pdf env uploaded
                    else (load_txt env uploaded, [\<lparr>page = 1, content = load_txt env uploaded\<rparr>]))
             in if strip text = [] then Some (Failure ''No text could be extracted from the file.'')
                else
                  (case chunk_text text 1000 200 of
                     None \<Rightarrow> None
                   | Some chunks \<Rightarrow>
                       Some (Success
                         (''Document processed! Created '' @ str_int (int (length chunks)) @ '' chunks.'')
                         \<lparr>documents = make_documents uploaded fid pinfo chunks,
                          result_metadata =
                            \<lparr>file_id = fid,
                             md_filename = name uploaded,
                             md_file_type = extension (name uploaded),
                             upload_time = timestamp env uploaded,
                             total_chunks = length chunks,
                             page_info = pinfo,
                             summary = generate_summary env (take 3000 text)\<rparr>\<rparr>))))"

text \<open>
  The \<open>for\<close> loop of \<open>process_multiple_documents\<close>, at the \<open>i\<close>-th file, from the state
  (\<open>all_documents\<close>, \<open>all_metadata\<close>, \<open>success_count\<close>). Assigning to a dictionary key
  replaces the value of a key that is there and appends a new key.
\<close>

fun process_multiple_loop ::
  "processor_env \<Rightarrow> uploaded_file list \<Rightarrow> nat \<Rightarrow> document list \<Rightarrow> (string \<times> file_metadata) list
     \<Rightarrow> nat \<Rightarrow> (document list \<times> (string \<times> file_metadata) list \<times> nat) option" where
  "process_multiple_loop env [] i docs metas success_count = Some (docs, metas, success_count)"
| "process_multiple_loop env (uploaded # rest) i docs metas success_count =
     (case process_document env uploaded (uuid4 env i) of
        None \<Rightarrow> None
      | Some (Failure msg) \<Rightarrow> process_multiple_loop env rest (Suc i) docs metas success_count
      | Some (Success msg r) \<Rightarrow>
          process_multiple_loop env rest (Suc i) (docs @ documents r)
            (AList.update (uuid4 env i) (result_metadata r) metas) (Suc success_count))"

definition process_multiple_documents ::
  "processor_env \<Rightarrow> uploaded_file list \<Rightarrow> batch_result status option" where
  "process_multiple_documents env uploaded_files =
     (case process_multiple_loop env uploaded_files 0 [] [] 0 of
        None \<Rightarrow> None
      | Some (docs, metas, success_count) \<Rightarrow>
          if success_count > 0
          then Some (Success
                 (''Processed '' @ str_int (int success_count) @ ''/''
                    @ str_int (int (length uploaded_files)) @ '' documents successfully.'')
                 \<lparr>all_documents = docs, all_metadata = metas\<rparr>)
          else Some (Failure ''Failed to process any documents.''))"

section \<open>Example values\<close>

text \<open>
  \<open>EnhancedQASystem.__init__\<close> leaves the chain unset and the metadata empty; the
  language model is the parameter.
\<close>

definition new_qa_system :: "(string \<Rightarrow> py_exception + string) \<Rightarrow> qa_system" where
  "new_qa_system llm = \<lparr>qa_chain = None, llm_invoke = llm, document_metadata = []\<rparr>"

text \<open>A language model that answers with its prompt, and a chain that always raises.\<close>

definition echo_llm :: "string \<Rightarrow> py_exception + string" where
  "echo_llm prompt = Inr prompt"

definition failing_chain :: "string \<Rightarrow> py_exception + string \<times> document list" where
  "failing_chain question = Inl (PyException ''ResourceExhausted'' ''429 quota exceeded'')"

text \<open>A retrieved chunk of a file at a page, with a text of \<open>n\<close> characters.\<close>

definition chunk_of :: "string \<Rightarrow> int option \<Rightarrow> nat \<Rightarrow> document" where
  "chunk_of file p n =
     \<lparr>page_content = replicate n CHR ''x'',
      metadata = \<lparr>source = Some file, page_number = p, chunk_id = Some 0, file_type = Some ''pdf''\<rparr>\<rparr>"

text \<open>The metadata of a loaded file with a given name and summary.\<close>

definition loaded_file :: "string \<Rightarrow> string \<Rightarrow> file_metadata" where
  "loaded_file fname s =
     \<lparr>file_id = ''id-'' @ fname, md_filename = fname, md_file_type = extension fname,
      upload_time = ''2024-01-01T00:00:00'', total_chunks = 1, page_info = [], summary = s\<rparr>"

section \<open>The properties in the words of the specification\<close>

subsection \<open>Confidence and the degraded result\<close>

text \<open>
  The confidence formula in the words of the specification: from the number of sources
  and the average length of their texts.
\<close>

definition avg_chunk_length :: "document list \<Rightarrow> rat" where
  "avg_chunk_length source_docs =
     int_truediv (int (sum_list (map (\<lambda>doc. length (page_content doc)) source_docs)))
       (int (length source_docs))"

definition confidence_formula :: "nat \<Rightarrow> rat \<Rightarrow> rat" where
  "confidence_formula num_sources avg =
     round2 (min 1 (float_add (float_mul (float_lit (2 / 10)) (float_of_int (int num_sources)))
                      (float_mul (float_lit (3 / 10)) (float_div avg (float_of_int 1000)))))"

text \<open>
  The confidence of \<open>n\<close> sources whose lengths add up to \<open>tot\<close>: the computation of
  \<open>_calculate_confidence\<close> from these two integers on.
\<close>

definition confidence_of_totals :: "int \<Rightarrow> int \<Rightarrow> rat" where
  "confidence_of_totals n tot =
     round2 (min 1 (float_add (float_mul (float_of_int n) (float_lit (2 / 10)))
                      (float_mul (float_div (int_truediv tot n) (float_of_int 1000))
                         (float_lit (3 / 10)))))"

text \<open>The result that the \<open>except\<close> handler of \<open>get_enhanced_response\<close> builds.\<close>

definition degraded_result :: "py_exception \<Rightarrow> answer_result" where
  "degraded_result e =
     \<lparr>answer = ''Error generating response: '' @ exc_msg e, citations = [], sources_info = [],
      source_documents = [], key_phrases = [], confidence = 0\<rparr>"

subsection \<open>Citations in the words of the specification\<close>

text \<open>
  Deduplication that keeps the first occurrence of every element, in order; the
  (filename, page number) pair of a retrieved chunk; the citation of a pair; and the
  citation of a source-info entry. \<open>citation_key\<close> is the key string that the code
  builds for a pair, and \<open>is_digit\<close> the characters of a decimal number.
\<close>

fun first_seen :: "'a list \<Rightarrow> 'a list" where
  "first_seen [] = []"
| "first_seen (x # xs) = x # first_seen (filter (\<lambda>y. y \<noteq> x) xs)"

definition is_digit :: "char \<Rightarrow> bool" where
  "is_digit c = (c \<in> set ''0123456789'')"

definition page_text :: "int option \<Rightarrow> string" where
  "page_text p = (case p of None \<Rightarrow> ''Unknown'' | Some n \<Rightarrow> str_int n)"

definition citation_pair :: "document \<Rightarrow> string \<times> int option" where
  "citation_pair doc = (get_source doc, page_number (metadata doc))"

definition format_citation :: "string \<times> int option \<Rightarrow> string" where
  "format_citation fp = fst fp @ '' (Page '' @ page_text (snd fp) @ '')''"

definition citation_key :: "string \<times> int option \<Rightarrow> string" where
  "citation_key fp = fst fp @ ''_'' @ page_text (snd fp)"

definition cite_source_info :: "source_info \<Rightarrow> string" where
  "cite_source_info info = filename info @ '' (Page '' @ str_int (info_page_number info) @ '')''"

definition info_pair :: "source_info \<Rightarrow> string \<times> int option" where
  "info_pair info = (filename info, Some (info_page_number info))"

subsection \<open>Chunking in the words of the specification\<close>

text \<open>
  The value of the variable \<open>sentence_end\<close> of \<open>chunk_text\<close> for a window: the last
  sentence terminator of the window, or \<open>-1\<close>.
\<close>

definition sentence_end :: "string \<Rightarrow> int \<Rightarrow> int \<Rightarrow> int" where
  "sentence_end text start end =
     max (max (rfind text CHR ''.'' start end) (rfind text CHR ''!'' start end)) (rfind text CHR ''?'' start end)"

text \<open>
  The chunks of a list of windows \<open>(start, end)\<close>: the trimmed slices that are not empty.
  \<open>window_chain n sz ov s ws\<close> says that the windows \<open>ws\<close> cover a text of length \<open>n\<close>
  from \<open>s\<close> on: the first window starts at \<open>s\<close>, every window is non-empty and at most
  \<open>sz\<close> long, every further window starts \<open>ov\<close> before the end of the one before it and
  after its start, and the last window ends at or after the end of the text.
\<close>

definition chunks_of :: "string \<Rightarrow> (int \<times> int) list \<Rightarrow> string list" where
  "chunks_of text ws = filter (\<lambda>c. c \<noteq> []) (map (\<lambda>(a, b). strip (slice text a b)) ws)"

fun window_chain :: "nat \<Rightarrow> int \<Rightarrow> int \<Rightarrow> int \<Rightarrow> (int \<times> int) list \<Rightarrow> bool" where
  "window_chain n sz ov s [] = False"
| "window_chain n sz ov s ((a, b) # ws) =
     (a = s \<and> 0 \<le> a \<and> a < b \<and> b \<le> a + sz \<and>
      (if ws = [] then int n \<le> b else a < b - ov \<and> window_chain n sz ov (b - ov) ws))"

subsection \<open>Batches in the words of the specification\<close>

text \<open>
  The results of the files that succeeded, in order, and the batch result that belongs
  to the outcomes of the files of a batch of \<open>n_files\<close> files.
\<close>

fun successes :: "'r status list \<Rightarrow> 'r list" where
  "successes [] = []"
| "successes (Failure msg # outs) = successes outs"
| "successes (Success msg r # outs) = r # successes outs"

definition batch_of :: "nat \<Rightarrow> process_result status list \<Rightarrow> batch_result status" where
  "batch_of n_files outs =
     (let rs = successes outs
      in if rs = [] then Failure ''Failed to process any documents.''
         else Success
           (''Processed '' @ str_int (int (length rs)) @ ''/'' @ str_int (int n_files)
              @ '' documents successfully.'')
           \<lparr>all_documents = concat (map documents rs),
            all_metadata =
              fold (\<lambda>r. AList.update (file_id (result_metadata r)) (result_metadata r)) rs []\<rparr>)"

text \<open>
  An environment in which no file-system call fails, the bytes of a file are its text (one
  page), the language model answers with a fixed summary and the \<open>i\<close>-th identifier is
  \<open>id-i\<close>; and an uploaded file with a name and bytes.
\<close>

definition example_env :: processor_env where
  "example_env =
     \<lparr>fs_error = (\<lambda>f. None),
      load_pdf = (\<lambda>f. (getvalue f, [\<lparr>page = 1, content = getvalue f\<rparr>])),
      load_txt = getvalue,
      summary_llm = (\<lambda>prompt. Inr ''A short summary.''),
      timestamp = (\<lambda>f. ''2024-01-01T00:00:00''),
      uuid4 = (\<lambda>i. ''id-'' @ str_int (int i))\<rparr>"

definition example_file :: "string \<Rightarrow> string \<Rightarrow> uploaded_file" where
  "example_file n bytes = \<lparr>name = n, getvalue = bytes\<rparr>"

section \<open>The answer engine\<close>

subsection \<open>Asking with no index\<close>

text \<open>
  C1, as the code has it: when no vector store has been initialised (\<open>qa_chain\<close> is
  \<open>None\<close>), \<open>get_enhanced_response\<close> raises nothing. Calling the missing chain fails
  inside the \<open>try\<close> block, the handler catches it, and the caller receives an ordinary
  result: the answer is the text \<open>Error generating response:\<close> followed by the message
  of the caught exception, the citations, source list and key phrases are empty and the
  confidence is 0.
\<close>

theorem empty_index_returns_degraded_result:
  "qa_chain self = None \<Longrightarrow> get_enhanced_response self question = degraded_result none_not_callable"
  by (simp add: get_enhanced_response_def enhanced_response_body_def degraded_result_def)

theorem empty_index_returns_degraded_result_witness:
  "qa_chain (new_qa_system echo_llm) = None \<and>
   answer (get_enhanced_response (new_qa_system echo_llm) ''Who signed the contract?'') =
     ''Error generating response: 'NoneType' object is not callable''"
  using empty_index_returns_degraded_result [of "new_qa_system echo_llm" "''Who signed the contract?''"]
  by (simp add: new_qa_system_def degraded_result_def none_not_callable_def)

text \<open>
  The claim as it is written fails: a question asked of a freshly built system comes
  back as a normal result, not as an error raised to the caller.
\<close>

theorem empty_index_counterexample:
  "get_enhanced_response (new_qa_system echo_llm) ''What is the revenue?'' =
     \<lparr>answer = ''Error generating response: 'NoneType' object is not callable'',
      citations = [], sources_info = [], source_documents = [], key_phrases = [],
      confidence = 0\<rparr>"
  by (simp add: get_enhanced_response_def enhanced_response_body_def new_qa_system_def
      none_not_callable_def)

subsection \<open>A failing generator\<close>

text \<open>
  C8: when the call of the retrieval chain (which calls the generator) raises any
  exception, \<open>get_enhanced_response\<close> returns a result whose answer is the text
  \<open>Error generating response:\<close> followed by the message of the exception, with empty
  citations, source list, source documents and key phrases and confidence 0. The
  function returns a result for every input: no exception leaves it.
\<close>

theorem generator_failure_returns_degraded_result:
  "qa_chain self = Some chain \<Longrightarrow> chain question = Inl e \<Longrightarrow>
   get_enhanced_response self question =
     \<lparr>answer = ''Error generating response: '' @ exc_msg e, citations = [], sources_info = [],
      source_documents = [], key_phrases = [], confidence = 0\<rparr>"
  by (simp add: get_enhanced_response_def enhanced_response_body_def)

theorem generator_failure_returns_degraded_result_witness:
  "get_enhanced_response (new_qa_system echo_llm\<lparr>qa_chain := Some failing_chain\<rparr>)
     ''What is the revenue?'' =
     \<lparr>answer = ''Error generating response: 429 quota exceeded'', citations = [],
      sources_info = [], source_documents = [], key_phrases = [], confidence = 0\<rparr>"
  using generator_failure_returns_degraded_result
    [of "new_qa_system echo_llm\<lparr>qa_chain := Some failing_chain\<rparr>" failing_chain
        "''What is the revenue?''" "PyException ''ResourceExhausted'' ''429 quota exceeded''"]
  by (simp add: new_qa_system_def failing_chain_def)

subsection \<open>The confidence score\<close>

lemma sum_list_const_length:
  "\<forall>d \<in> set docs. length (page_content d) = k \<Longrightarrow>
   sum_list (map (\<lambda>doc. length (page_content doc)) docs) = k * length docs"
  by (induction docs) auto

lemma calculate_confidence_totals:
  "docs \<noteq> [] \<Longrightarrow>
   calculate_confidence docs =
     confidence_of_totals (int (length docs))
       (int (sum_list (map (\<lambda>doc. length (page_content doc)) docs)))"
  by (simp add: calculate_confidence_def confidence_of_totals_def Let_def)

text \<open>The floats \<open>0.75\<close> and \<open>1.0\<close> are exact; \<open>0.75\<close> is not \<open>1.0\<close>.\<close>

lemma float_three_quarters: "float_lit (75 / 100) = 3 / 4"
  by code_simp

text \<open>The two examples of the specification, computed in binary64.\<close>

lemma confidence_three_of_500: "confidence_of_totals 3 1500 = float_lit (75 / 100)"
  by code_simp

lemma confidence_one_of_100: "confidence_of_totals 1 100 = float_lit (23 / 100)"
  by code_simp

text \<open>
  Rounding follows the floats, not the exact values: for two sources of 150 characters
  the exact value of the formula is 0.445, a tie that exact arithmetic would round to
  0.44, but the float sum lies above the tie and the code returns 0.45. Likewise two
  sources of 350 characters give 0.51 and two of 650 characters give 0.59.
\<close>

lemma confidence_rounds_the_float:
  "confidence_of_totals 2 300 = float_lit (45 / 100)"
  "confidence_of_totals 2 700 = float_lit (51 / 100)"
  "confidence_of_totals 2 1300 = float_lit (59 / 100)"
  by code_simp+

text \<open>
  C5, as the code has it: the confidence of an empty source list is 0, and otherwise it is
  \<open>min(1.0, 0.2 * num_sources + 0.3 * (average text length / 1000))\<close> rounded to 2
  decimals, computed in floats. Three sources of length 500 each give 0.75 (that is
  \<open>0.6 + 0.15\<close>), and one source of length 100 gives 0.23.
\<close>

theorem calculate_confidence_formula:
  "calculate_confidence docs =
     (if docs = [] then 0 else confidence_formula (length docs) (avg_chunk_length docs))
   \<and> (length docs = 3 \<and> (\<forall>d \<in> set docs. length (page_content d) = 500)
        \<longrightarrow> calculate_confidence docs = float_lit (75 / 100))
   \<and> (length docs = 1 \<and> (\<forall>d \<in> set docs. length (page_content d) = 100)
        \<longrightarrow> calculate_confidence docs = float_lit (23 / 100))"
proof (intro conjI impI)
  show "calculate_confidence docs =
     (if docs = [] then 0 else confidence_formula (length docs) (avg_chunk_length docs))"
    by (simp add: calculate_confidence_def confidence_formula_def avg_chunk_length_def
        float_mul_def Let_def mult.commute)
next
  assume a: "length docs = 3 \<and> (\<forall>d \<in> set docs. length (page_content d) = 500)"
  then have "sum_list (map (\<lambda>doc. length (page_content doc)) docs) = 1500"
    using sum_list_const_length [of docs 500] by simp
  moreover have "docs \<noteq> []" using a by auto
  ultimately show "calculate_confidence docs = float_lit (75 / 100)"
    using a confidence_three_of_500 by (simp add: calculate_confidence_totals)
next
  assume a: "length docs = 1 \<and> (\<forall>d \<in> set docs. length (page_content d) = 100)"
  then have "sum_list (map (\<lambda>doc. length (page_content doc)) docs) = 100"
    using sum_list_const_length [of docs 100] by simp
  moreover have "docs \<noteq> []" using a by auto
  ultimately show "calculate_confidence docs = float_lit (23 / 100)"
    using a confidence_one_of_100 by (simp add: calculate_confidence_totals)
qed

theorem calculate_confidence_formula_witness:
  "calculate_confidence [chunk_of ''a.pdf'' (Some 1) 100] = float_lit (23 / 100) \<and>
   calculate_confidence [] = 0"
  using calculate_confidence_formula [of "[chunk_of ''a.pdf'' (Some 1) 100]"]
    calculate_confidence_formula [of "[]"]
  by (simp add: chunk_of_def)

text \<open>
  The claim as it is written fails at its own example: three sources of length 500 each
  have confidence 0.75, not 1.0.
\<close>

theorem confidence_three_sources_counterexample:
  "calculate_confidence
     [chunk_of ''a.pdf'' (Some 1) 500, chunk_of ''a.pdf'' (Some 2) 500, chunk_of ''b.pdf'' (Some 1) 500]
     = 3 / 4 \<and>
   calculate_confidence
     [chunk_of ''a.pdf'' (Some 1) 500, chunk_of ''a.pdf'' (Some 2) 500, chunk_of ''b.pdf'' (Some 1) 500]
     \<noteq> 1"
  using confidence_three_of_500 float_three_quarters
  by (simp add: calculate_confidence_totals chunk_of_def)

subsection \<open>The executive summary\<close>

text \<open>
  C7, as the code has it: with no loaded document \<open>generate_executive_summary\<close>
  returns the fixed text \<open>No documents loaded for summary generation.\<close>; with exactly
  one loaded document it returns that document's stored summary behind a heading made
  of the file name, \<open>**<filename>**: <summary>\<close>.
\<close>

theorem executive_summary_zero_or_one:
  "(document_metadata self = [] \<longrightarrow>
      generate_executive_summary self = ''No documents loaded for summary generation.'')
   \<and> (document_metadata self = [(fid, meta)] \<longrightarrow>
      generate_executive_summary self = ''**'' @ md_filename meta @ ''**: '' @ summary meta)"
  by (simp add: generate_executive_summary_def)

theorem executive_summary_zero_or_one_witness:
  "generate_executive_summary (new_qa_system echo_llm) =
     ''No documents loaded for summary generation.''
   \<and> generate_executive_summary
       (new_qa_system echo_llm
          \<lparr>document_metadata := [(''id-b.txt'', loaded_file ''b.txt'' ''Costs fell.'')]\<rparr>) =
     ''**b.txt**: Costs fell.''"
  using executive_summary_zero_or_one [of "new_qa_system echo_llm"]
    executive_summary_zero_or_one
      [of "new_qa_system echo_llm\<lparr>document_metadata := [(''id-b.txt'', loaded_file ''b.txt'' ''Costs fell.'')]\<rparr>"
          "''id-b.txt''" "loaded_file ''b.txt'' ''Costs fell.''"]
  by (simp add: new_qa_system_def loaded_file_def)

text \<open>
  The claim as it is written fails: with one loaded document the result is not the
  stored summary itself, the file name is put in front of it.
\<close>

theorem executive_summary_one_document_counterexample:
  "generate_executive_summary
     (new_qa_system echo_llm
        \<lparr>document_metadata := [(''id-a.pdf'', loaded_file ''a.pdf'' ''Sales grew.'')]\<rparr>)
     = ''**a.pdf**: Sales grew.''
   \<and> summary (loaded_file ''a.pdf'' ''Sales grew.'') = ''Sales grew.''"
  by (simp add: generate_executive_summary_def new_qa_system_def loaded_file_def)

section \<open>Citations\<close>

subsection \<open>The key of a citation determines its pair\<close>

lemma digit_char_inj: "a < 10 \<Longrightarrow> b < 10 \<Longrightarrow> digit_char a = digit_char b \<Longrightarrow> a = b"
proof -
  assume a: "a < 10" and b: "b < 10" and e: "digit_char a = digit_char b"
  have d: "distinct ''0123456789''" by simp
  have "a < length ''0123456789''" "b < length ''0123456789''" using a b by simp_all
  then show "a = b" using e d unfolding digit_char_def
    by (simp only: nth_eq_iff_index_eq)
qed

lemma digit_char_is_digit: "a < 10 \<Longrightarrow> is_digit (digit_char a)"
  unfolding digit_char_def is_digit_def by (rule nth_mem) simp

lemma str_nat_nonempty: "str_nat n \<noteq> []"
  by (subst str_nat.simps) simp

lemma str_nat_digits: "c \<in> set (str_nat n) \<Longrightarrow> is_digit c"
proof (induction n rule: str_nat.induct)
  case (1 n)
  show ?case
  proof (cases "n < 10")
    case True
    with 1(2) show ?thesis using digit_char_is_digit [of n]
      by (simp add: str_nat.simps [of n])
  next
    case False
    have "is_digit (digit_char (n mod 10))" by (rule digit_char_is_digit) simp
    with False 1 show ?thesis
      by (auto simp: str_nat.simps [of n])
  qed
qed

lemma str_nat_inj: "str_nat m = str_nat n \<Longrightarrow> m = n"
proof (induction m arbitrary: n rule: str_nat.induct)
  case (1 m)
  show ?case
  proof (cases "m < 10")
    case m: True
    show ?thesis
    proof (cases "n < 10")
      case True
      with m 1(2) have "digit_char m = digit_char n"
        by (simp add: str_nat.simps [of m] str_nat.simps [of n])
      with m True show ?thesis using digit_char_inj by blast
    next
      case False
      with m 1(2) show ?thesis
        using str_nat_nonempty [of "n div 10"]
        by (simp add: str_nat.simps [of m] str_nat.simps [of n])
    qed
  next
    case m: False
    show ?thesis
    proof (cases "n < 10")
      case True
      with m 1(2) show ?thesis
        using str_nat_nonempty [of "m div 10"]
        by (simp add: str_nat.simps [of m] str_nat.simps [of n])
    next
      case False
      with m 1(2) have e: "str_nat (m div 10) = str_nat (n div 10)"
        and d: "digit_char (m mod 10) = digit_char (n mod 10)"
        by (simp_all add: str_nat.simps [of m] str_nat.simps [of n])
      from e have "m div 10 = n div 10" using 1(1) m by simp
      moreover have "m mod 10 = n mod 10"
        by (rule digit_char_inj [OF _ _ d]) simp_all
      ultimately show ?thesis by (metis div_mult_mod_eq)
    qed
  qed
qed

lemma str_nat_hd_digit: "is_digit (hd (str_nat n))"
  using str_nat_nonempty [of n] str_nat_digits [of "hd (str_nat n)" n] by simp

lemma minus_not_digit: "\<not> is_digit CHR ''-''"
  by (simp add: is_digit_def)

lemma str_int_inj: "str_int i = str_int j \<Longrightarrow> i = j"
proof -
  assume e: "str_int i = str_int j"
  show "i = j"
  proof (cases "i < 0")
    case i: True
    show ?thesis
    proof (cases "j < 0")
      case True
      with i e have "str_nat (nat (- i)) = str_nat (nat (- j))" by (simp add: str_int_def)
      then have "nat (- i) = nat (- j)" by (rule str_nat_inj)
      with i True show ?thesis by simp
    next
      case False
      with i e have "CHR ''-'' # str_nat (nat (- i)) = str_nat (nat j)" by (simp add: str_int_def)
      then have "hd (str_nat (nat j)) = CHR ''-''" by (metis list.sel(1))
      with str_nat_hd_digit [of "nat j"] minus_not_digit show ?thesis by simp
    qed
  next
    case i: False
    show ?thesis
    proof (cases "j < 0")
      case True
      with i e have "str_nat (nat i) = CHR ''-'' # str_nat (nat (- j))" by (simp add: str_int_def)
      then have "hd (str_nat (nat i)) = CHR ''-''" by (metis list.sel(1))
      with str_nat_hd_digit [of "nat i"] minus_not_digit show ?thesis by simp
    next
      case False
      with i e have "str_nat (nat i) = str_nat (nat j)" by (simp add: str_int_def)
      then have "nat i = nat j" by (rule str_nat_inj)
      with i False show ?thesis by simp
    qed
  qed
qed

lemma str_int_chars: "c \<in> set (str_int i) \<Longrightarrow> c = CHR ''-'' \<or> is_digit c"
  using str_nat_digits [of c "nat i"] str_nat_digits [of c "nat (- i)"]
  by (simp add: str_int_def split: if_splits) blast

lemma page_text_no_underscore: "CHR ''_'' \<notin> set (page_text p)"
proof (cases p)
  case None
  then show ?thesis by (simp add: page_text_def)
next
  case (Some n)
  have "\<not> is_digit CHR ''_''" by (simp add: is_digit_def)
  then show ?thesis using Some str_int_chars [of "CHR ''_''" n] by (auto simp: page_text_def)
qed

lemma str_int_not_unknown: "str_int n \<noteq> ''Unknown''"
proof
  assume "str_int n = ''Unknown''"
  then have "CHR ''U'' \<in> set (str_int n)" by simp
  then have "CHR ''U'' = CHR ''-'' \<or> is_digit CHR ''U''" by (rule str_int_chars)
  then show False by (simp add: is_digit_def)
qed

lemma page_text_inj: "page_text p = page_text q \<Longrightarrow> p = q"
proof (cases p)
  case None
  assume "page_text p = page_text q"
  with None show ?thesis using str_int_not_unknown
    by (cases q) (auto simp: page_text_def)
next
  case (Some n)
  assume e: "page_text p = page_text q"
  show ?thesis
  proof (cases q)
    case None
    with Some e show ?thesis using str_int_not_unknown [of n] by (simp add: page_text_def)
  next
    case (Some m)
    with \<open>p = Some n\<close> e have "str_int n = str_int m" by (simp add: page_text_def)
    then have "n = m" by (rule str_int_inj)
    with Some \<open>p = Some n\<close> show ?thesis by simp
  qed
qed

lemma split_at_last_sep:
  "c \<notin> set s \<Longrightarrow> c \<notin> set s' \<Longrightarrow> f @ c # s = f' @ c # s' \<Longrightarrow> f = f' \<and> s = s'"
proof (induction f arbitrary: f')
  case Nil
  then show ?case by (cases f') auto
next
  case (Cons a f)
  then show ?case by (cases f') auto
qed

lemma citation_key_inj: "citation_key a = citation_key b \<Longrightarrow> a = b"
proof -
  assume e: "citation_key a = citation_key b"
  then have "fst a @ CHR ''_'' # page_text (snd a) = fst b @ CHR ''_'' # page_text (snd b)"
    by (simp add: citation_key_def)
  then have k: "fst a = fst b \<and> page_text (snd a) = page_text (snd b)"
    by (rule split_at_last_sep [OF page_text_no_underscore page_text_no_underscore])
  then have "snd a = snd b" by (intro page_text_inj) simp
  with k show "a = b" by (simp add: prod_eq_iff)
qed

lemma create_citation_loop_spec:
  "create_citation_loop docs cits seen =
     cits @ map format_citation
       (first_seen (filter (\<lambda>fp. citation_key fp \<notin> seen) (map citation_pair docs)))"
proof (induction docs arbitrary: cits seen)
  case Nil
  then show ?case by simp
next
  case (Cons d docs)
  have k: "get_source d @ ''_'' @ get_page_str d = citation_key (citation_pair d)"
    by (simp add: citation_key_def citation_pair_def page_text_def get_page_str_def)
  have f: "get_source d @ '' (Page '' @ get_page_str d @ '')'' = format_citation (citation_pair d)"
    by (simp add: format_citation_def citation_pair_def page_text_def get_page_str_def)
  have flt: "filter (\<lambda>y. y \<noteq> citation_pair d)
               (filter (\<lambda>fp. citation_key fp \<notin> seen) (map citation_pair docs))
           = filter (\<lambda>fp. citation_key fp \<notin> insert (citation_key (citation_pair d)) seen)
               (map citation_pair docs)"
  proof -
    have "\<And>fp. (citation_key fp \<notin> seen \<and> fp \<noteq> citation_pair d) =
               (citation_key fp \<notin> insert (citation_key (citation_pair d)) seen)"
      using citation_key_inj by blast
    then show ?thesis by simp
  qed
  show ?case
  proof (cases "citation_key (citation_pair d) \<in> seen")
    case True
    then show ?thesis using Cons.IH [of cits seen] k by (simp add: Let_def)
  next
    case False
    then show ?thesis
      using Cons.IH [of "cits @ [format_citation (citation_pair d)]"
                        "insert (citation_key (citation_pair d)) seen"] k f flt
      by (simp add: Let_def)
  qed
qed

text \<open>
  C6: for every list of source documents, \<open>create_citation\<close> deduplicates on the
  (filename, page number) pair, keeps the first occurrence of each pair in order, prints
  each kept pair as \<open><filename> (Page <page_number>)\<close> and joins the entries with
  \<open>; \<close>. The filename of a document is its \<open>source\<close>, or \<open>Unknown\<close> when it has none; a
  missing page number prints as \<open>Unknown\<close>.
\<close>

theorem create_citation_dedups_pairs:
  "create_citation docs =
     join ''; '' (map format_citation (first_seen (map citation_pair docs)))"
  by (simp add: create_citation_def create_citation_loop_spec)

theorem create_citation_dedups_pairs_witness:
  "create_citation
     [chunk_of ''a.pdf'' (Some 1) 40, chunk_of ''a.pdf'' (Some 1) 25, chunk_of ''b.pdf'' (Some 2) 30]
   = ''a.pdf (Page 1); b.pdf (Page 2)''"
  using create_citation_dedups_pairs [of "[chunk_of ''a.pdf'' (Some 1) 40, chunk_of ''a.pdf'' (Some 1) 25, chunk_of ''b.pdf'' (Some 2) 30]"]
  by (simp add: chunk_of_def citation_pair_def format_citation_def page_text_def get_source_def str_int_def str_nat.simps digit_char_def)

subsection \<open>Citations and source information\<close>

lemma page_number_present:
  "page_number (metadata d) \<noteq> None \<Longrightarrow>
     get_page_str d = str_int (get_page_int d) \<and>
     cite_source_info (make_source_info d) = get_source d @ '' (Page '' @ get_page_str d @ '')'' \<and>
     info_pair (make_source_info d) = citation_pair d \<and>
     get_source d @ ''_'' @ str_int (get_page_int d) = citation_key (citation_pair d)"
  by (auto simp: get_page_str_def get_page_int_def cite_source_info_def make_source_info_def
      info_pair_def citation_pair_def citation_key_def page_text_def)

lemma citation_loops_aligned:
  "\<forall>d \<in> set docs. page_number (metadata d) \<noteq> None \<Longrightarrow>
   create_citation_loop docs (map cite_source_info infos) seen =
     map cite_source_info (extract_source_info_loop docs infos seen)"
proof (induction docs arbitrary: infos seen)
  case Nil
  then show ?case by simp
next
  case (Cons d docs)
  have p: "page_number (metadata d) \<noteq> None" using Cons.prems by simp
  have rest: "\<forall>d \<in> set docs. page_number (metadata d) \<noteq> None" using Cons.prems by simp
  note k = page_number_present [OF p]
  show ?case
  proof (cases "get_source d @ ''_'' @ get_page_str d \<in> seen")
    case True
    then show ?thesis using Cons.IH [OF rest, of infos seen] k by (simp add: Let_def)
  next
    case False
    then show ?thesis
      using Cons.IH [OF rest, of "infos @ [make_source_info d]"
                        "insert (get_source d @ ''_'' @ get_page_str d) seen"] k
      by (simp add: Let_def)
  qed
qed

lemma extract_source_info_loop_pairs:
  "\<forall>d \<in> set docs. page_number (metadata d) \<noteq> None \<Longrightarrow>
   map info_pair (extract_source_info_loop docs infos seen) =
     map info_pair infos @
       first_seen (filter (\<lambda>fp. citation_key fp \<notin> seen) (map citation_pair docs))"
proof (induction docs arbitrary: infos seen)
  case Nil
  then show ?case by simp
next
  case (Cons d docs)
  have p: "page_number (metadata d) \<noteq> None" using Cons.prems by simp
  have rest: "\<forall>d \<in> set docs. page_number (metadata d) \<noteq> None" using Cons.prems by simp
  note k = page_number_present [OF p]
  have flt: "filter (\<lambda>y. y \<noteq> citation_pair d)
               (filter (\<lambda>fp. citation_key fp \<notin> seen) (map citation_pair docs))
           = filter (\<lambda>fp. citation_key fp \<notin> insert (citation_key (citation_pair d)) seen)
               (map citation_pair docs)"
  proof -
    have "\<And>fp. (citation_key fp \<notin> seen \<and> fp \<noteq> citation_pair d) =
               (citation_key fp \<notin> insert (citation_key (citation_pair d)) seen)"
      using citation_key_inj by blast
    then show ?thesis by simp
  qed
  show ?case
  proof (cases "citation_key (citation_pair d) \<in> seen")
    case True
    then show ?thesis using Cons.IH [OF rest, of infos seen] k by (simp add: Let_def)
  next
    case False
    then show ?thesis
      using Cons.IH [OF rest, of "infos @ [make_source_info d]"
                        "insert (citation_key (citation_pair d)) seen"] k flt
      by (simp add: Let_def)
  qed
qed

text \<open>
  C10, as the code has it: for every list of source documents that all carry a page
  number, the citation string and the source-info list are aligned. The citation string
  is the \<open>; \<close>-join of the citations \<open><filename> (Page <page_number>)\<close> of the entries of
  the source-info list, in order, and the (filename, page number) pairs of the
  source-info list are the pairs of the documents, deduplicated in first-seen order.
\<close>

theorem citations_aligned_with_source_info:
  assumes "\<forall>d \<in> set docs. page_number (metadata d) \<noteq> None"
  shows "create_citation docs = join ''; '' (map cite_source_info (extract_source_info docs))
       \<and> map info_pair (extract_source_info docs) = first_seen (map citation_pair docs)"
  using citation_loops_aligned [OF assms, of "[]" "{}"] extract_source_info_loop_pairs [OF assms, of "[]" "{}"]
  by (simp add: create_citation_def extract_source_info_def)

theorem citations_aligned_with_source_info_witness:
  "create_citation [chunk_of ''a.pdf'' (Some 1) 40, chunk_of ''a.pdf'' (Some 1) 25, chunk_of ''b.pdf'' (Some 2) 30]
     = join ''; '' (map cite_source_info (extract_source_info
         [chunk_of ''a.pdf'' (Some 1) 40, chunk_of ''a.pdf'' (Some 1) 25, chunk_of ''b.pdf'' (Some 2) 30]))
   \<and> map info_pair (extract_source_info
         [chunk_of ''a.pdf'' (Some 1) 40, chunk_of ''a.pdf'' (Some 1) 25, chunk_of ''b.pdf'' (Some 2) 30])
     = [(''a.pdf'', Some 1), (''b.pdf'', Some 2)]"
  using citations_aligned_with_source_info [of "[chunk_of ''a.pdf'' (Some 1) 40, chunk_of ''a.pdf'' (Some 1) 25, chunk_of ''b.pdf'' (Some 2) 30]"]
  by (simp add: chunk_of_def citation_pair_def get_source_def)

text \<open>
  The claim as it is written fails for a document without a page number: the citation
  prints its page as \<open>Unknown\<close>, the source-info list takes page 1, and the two
  deduplicate differently.
\<close>

theorem citations_alignment_counterexample:
  "create_citation [chunk_of ''a.pdf'' None 40, chunk_of ''a.pdf'' (Some 1) 25]
     = ''a.pdf (Page Unknown); a.pdf (Page 1)''
   \<and> map info_pair (extract_source_info [chunk_of ''a.pdf'' None 40, chunk_of ''a.pdf'' (Some 1) 25])
     = [(''a.pdf'', Some 1)]"
  by (simp add: create_citation_def extract_source_info_def chunk_of_def get_source_def
      get_page_str_def get_page_int_def str_int_def str_nat.simps digit_char_def Let_def
      make_source_info_def info_pair_def)


section \<open>Chunking\<close>

subsection \<open>Windows\<close>

lemma rfind_down_range: "rfind_down s c a k = - 1 \<or> (int a \<le> rfind_down s c a k \<and> rfind_down s c a k < int (a + k))"
  by (induction k) auto

lemma adjust_le: "adjust i n \<le> n"
  by (auto simp: adjust_def)

lemma rfind_range:
  "rfind s c start end = - 1 \<or>
   (int (adjust start (length s)) \<le> rfind s c start end \<and> rfind s c start end < int (adjust end (length s)))"
  using rfind_down_range [of s c "adjust start (length s)" "adjust end (length s) - adjust start (length s)"]
  by (auto simp: rfind_def Let_def)

lemma rfind_lt_length: "rfind s c start end < int (length s)"
  using rfind_range [of s c start "end"] adjust_le [of "end" "length s"] by auto

lemma window_end_cases:
  "window_end text sz start = start + sz \<or>
   (start + sz < int (length text) \<and> start + sz div 2 < sentence_end text start (start + sz) \<and>
    window_end text sz start = sentence_end text start (start + sz) + 1)"
  by (simp add: window_end_def sentence_end_def Let_def)

lemma sentence_end_lt_length: "sentence_end text start end < int (length text)"
  using rfind_lt_length [of "text" _ start "end"] by (simp add: sentence_end_def)

lemma sentence_end_range:
  "0 \<le> start \<Longrightarrow> 0 \<le> end \<Longrightarrow> end \<le> int (length text) \<Longrightarrow>
   sentence_end text start end = - 1 \<or> (start \<le> sentence_end text start end \<and> sentence_end text start end < end)"
proof -
  assume a: "0 \<le> start" "0 \<le> end" "end \<le> int (length text)"
  have r: "\<And>c. rfind text c start end = - 1 \<or> (start \<le> rfind text c start end \<and> rfind text c start end < end)"
  proof -
    fix c
    have "int (adjust end (length text)) = end" using a by (auto simp: adjust_def)
    moreover have "start \<le> int (adjust start (length text)) \<or> int (adjust start (length text)) = int (length text)"
      using a by (auto simp: adjust_def)
    ultimately show "rfind text c start end = - 1 \<or> (start \<le> rfind text c start end \<and> rfind text c start end < end)"
      using rfind_range [of "text" c start "end"] a by auto
  qed
  show ?thesis
    using r [of "CHR ''.''"] r [of "CHR ''!''"] r [of "CHR ''?''"]
    unfolding sentence_end_def by linarith
qed

lemma window_end_le_max: "window_end text sz start \<le> max (start + sz) (int (length text))"
  using window_end_cases [of "text" sz start] sentence_end_lt_length [of "text" start "start + sz"]
  by auto

lemma chunk_loop_diverges:
  assumes inv: "\<And>s. I s \<Longrightarrow> s < int (length text) \<and> window_end text sz s - ov < int (length text)
                       \<and> I (window_end text sz s - ov)"
    and start: "I start"
  shows "chunk_loop text sz ov start chunks = None"
proof (cases "chunk_loop text sz ov start chunks")
  case None
  then show ?thesis .
next
  case (Some y)
  have "text = text \<and> sz = sz \<and> ov = ov \<longrightarrow> \<not> I start"
  proof (rule chunk_loop.raw_induct
      [where P = "\<lambda>t z o' s c y. t = text \<and> z = sz \<and> o' = ov \<longrightarrow> \<not> I s", OF _ Some])
    fix f t z o' s c r
    assume IH: "\<And>t z o' s c r. f t z o' s c = Some r \<Longrightarrow> t = text \<and> z = sz \<and> o' = ov \<longrightarrow> \<not> I s"
      and step: "(if s < int (length t)
          then let end = window_end t z s; chunk = strip (slice t s end);
                   chunks' = if chunk \<noteq> [] then c @ [chunk] else c; start' = end - o'
               in if int (length t) \<le> start' then Some chunks' else f t z o' start' chunks'
          else Some c) = Some r"
    show "t = text \<and> z = sz \<and> o' = ov \<longrightarrow> \<not> I s"
    proof (intro impI notI)
      assume eq: "t = text \<and> z = sz \<and> o' = ov" and i: "I s"
      from inv [OF i] have a: "s < int (length text)" and b: "window_end text sz s - ov < int (length text)"
        and c: "I (window_end text sz s - ov)" by simp_all
      from step eq a b obtain c' where "f text sz ov (window_end text sz s - ov) c' = Some r"
        by (simp add: Let_def)
      from IH [OF this] c show False by simp
    qed
  qed
  with start show ?thesis by simp
qed

lemma overlap_ge_size_diverges:
  assumes "sz \<le> ov" "0 < ov" "text \<noteq> []"
  shows "chunk_loop text sz ov 0 [] = None"
proof (rule chunk_loop_diverges [where I = "\<lambda>s. s < int (length text)"])
  fix s assume s: "s < int (length text)"
  have "window_end text sz s \<le> max (s + sz) (int (length text))" by (rule window_end_le_max)
  with s assms show "s < int (length text) \<and> window_end text sz s - ov < int (length text)
      \<and> window_end text sz s - ov < int (length text)" by auto
next
  show "0 < int (length text)" using assms by simp
qed

lemma chunk_text_overlap_ge_size:
  "sz \<le> ov \<Longrightarrow> 0 < ov \<Longrightarrow> chunk_text text sz ov = (if text = [] then Some [] else None)"
  by (simp add: chunk_text_def overlap_ge_size_diverges)

lemma chunk_loop_stuck_example: "chunk_loop ''aaaaaaaa.aaa'' 10 9 0 [] = None"
proof (rule chunk_loop_diverges [where I = "\<lambda>s. s = 0"])
  fix s :: int assume "s = 0"
  moreover have "window_end ''aaaaaaaa.aaa'' 10 0 = 9"
    by (simp add: window_end_def rfind_def adjust_def Let_def)
  ultimately show "s < int (length ''aaaaaaaa.aaa'') \<and> window_end ''aaaaaaaa.aaa'' 10 s - 9 < int (length ''aaaaaaaa.aaa'')
      \<and> window_end ''aaaaaaaa.aaa'' 10 s - 9 = 0" by simp
qed simp

lemma length_strip_le: "length (strip s) \<le> length s"
proof -
  have "length (strip s) \<le> length (dropWhile isspace s)"
    unfolding strip_def using length_dropWhile_le [of isspace "rev (dropWhile isspace s)"] by simp
  also have "\<dots> \<le> length s" by (rule length_dropWhile_le)
  finally show ?thesis .
qed

lemma length_slice_le: "0 \<le> a \<Longrightarrow> a \<le> b \<Longrightarrow> length (slice s a b) \<le> nat (b - a)"
  by (auto simp: slice_def adjust_def Let_def)

lemma window_end_good:
  assumes "0 \<le> ov" "ov < sz" "ov \<le> sz div 2 + 1" "0 \<le> start" "start < int (length text)"
  shows "start < window_end text sz start - ov \<and> window_end text sz start \<le> start + sz"
proof -
  from window_end_cases [of "text" sz start]
  show ?thesis
  proof
    assume "window_end text sz start = start + sz"
    with assms show ?thesis by simp
  next
    assume c: "start + sz < int (length text) \<and> start + sz div 2 < sentence_end text start (start + sz) \<and>
      window_end text sz start = sentence_end text start (start + sz) + 1"
    have "0 \<le> sz div 2" using assms by simp
    with c assms have "sentence_end text start (start + sz) \<noteq> - 1" by linarith
    moreover have "sentence_end text start (start + sz) = - 1 \<or>
        (start \<le> sentence_end text start (start + sz) \<and> sentence_end text start (start + sz) < start + sz)"
      using c assms by (intro sentence_end_range) simp_all
    ultimately show ?thesis using c assms by linarith
  qed
qed

lemma chunks_of_Cons:
  "chunks_of text ((a, b) # ws) =
     (if strip (slice text a b) \<noteq> [] then [strip (slice text a b)] else []) @ chunks_of text ws"
  by (simp add: chunks_of_def)

lemma chunk_loop_chain:
  assumes g: "0 \<le> ov" "ov < sz" "ov \<le> sz div 2 + 1"
  shows "0 \<le> start \<Longrightarrow> start < int (length text) \<Longrightarrow>
     \<exists>ws. chunk_loop text sz ov start chunks = Some (chunks @ chunks_of text ws)
          \<and> window_chain (length text) sz ov start ws"
proof (induction "nat (int (length text) - start)" arbitrary: start chunks rule: less_induct)
  case less
  let ?e = "window_end text sz start"
  let ?c = "strip (slice text start ?e)"
  let ?chunks = "if ?c \<noteq> [] then chunks @ [?c] else chunks"
  have w: "start < ?e - ov" "?e \<le> start + sz"
    using window_end_good [OF g less.prems] by simp_all
  have cs: "?chunks = chunks @ chunks_of text [(start, ?e)]"
    by (simp add: chunks_of_def)
  show ?case
  proof (cases "int (length text) \<le> ?e - ov")
    case True
    have "chunk_loop text sz ov start chunks = Some ?chunks"
      using less.prems True by (subst chunk_loop.simps) (simp add: Let_def)
    moreover have "window_chain (length text) sz ov start [(start, ?e)]"
      using True w g less.prems by simp
    ultimately show ?thesis using cs by metis
  next
    case False
    have m: "nat (int (length text) - (?e - ov)) < nat (int (length text) - start)"
      using w less.prems by linarith
    have "0 \<le> ?e - ov" "?e - ov < int (length text)" using w less.prems False by linarith+
    from less.hyps [OF m this, of ?chunks]
    obtain ws where ws: "chunk_loop text sz ov (?e - ov) ?chunks = Some (?chunks @ chunks_of text ws)"
      and ch: "window_chain (length text) sz ov (?e - ov) ws" by blast
    from ch have ne: "ws \<noteq> []" by auto
    have "chunk_loop text sz ov start chunks = chunk_loop text sz ov (?e - ov) ?chunks"
      using less.prems False by (subst chunk_loop.simps) (simp add: Let_def)
    with ws have "chunk_loop text sz ov start chunks = Some (chunks @ chunks_of text ((start, ?e) # ws))"
      by (simp add: chunks_of_Cons)
    moreover have "window_chain (length text) sz ov start ((start, ?e) # ws)"
      using ch ne w g less.prems by simp
    ultimately show ?thesis by blast
  qed
qed

lemma window_chain_covers:
  "window_chain n sz ov s ws \<Longrightarrow> 0 \<le> ov \<Longrightarrow> s \<le> i \<Longrightarrow> i < int n \<Longrightarrow> \<exists>(a, b) \<in> set ws. a \<le> i \<and> i < b"
proof (induction ws arbitrary: s)
  case Nil
  then show ?case by simp
next
  case (Cons w ws)
  obtain a b where w: "w = (a, b)" by (cases w)
  show ?case
  proof (cases "i < b")
    case True
    with Cons.prems w show ?thesis by auto
  next
    case False
    with Cons.prems w have ne: "ws \<noteq> []" by auto
    with Cons.prems w have ch: "window_chain n sz ov (b - ov) ws" by simp
    have "b - ov \<le> i" using False Cons.prems by linarith
    from Cons.IH [OF ch Cons.prems(2) this Cons.prems(4)] show ?thesis by auto
  qed
qed

lemma window_chain_lengths:
  "window_chain n sz ov s ws \<Longrightarrow> c \<in> set (chunks_of text ws) \<Longrightarrow> length c \<le> nat sz"
proof (induction ws arbitrary: s)
  case Nil
  then show ?case by simp
next
  case (Cons w ws)
  obtain a b where w: "w = (a, b)" by (cases w)
  show ?case
  proof (cases "c \<in> set (chunks_of text ws)")
    case True
    then have ne: "ws \<noteq> []" by (auto simp: chunks_of_def)
    with Cons.prems w have "window_chain n sz ov (b - ov) ws" by simp
    from Cons.IH [OF this True] show ?thesis .
  next
    case False
    with Cons.prems w have c: "c = strip (slice text a b)"
      by (auto simp: chunks_of_Cons split: if_splits)
    have ab: "0 \<le> a" "a \<le> b" "b \<le> a + sz" using Cons.prems w by auto
    have "length c \<le> length (slice text a b)" unfolding c by (rule length_strip_le)
    also have "\<dots> \<le> nat (b - a)" using ab by (intro length_slice_le)
    also have "\<dots> \<le> nat sz" using ab by linarith
    finally show ?thesis .
  qed
qed

lemma chunk_text_covers_general:
  assumes "text \<noteq> []" "0 \<le> ov" "ov < sz" "ov \<le> sz div 2 + 1"
  shows "\<exists>ws. chunk_text text sz ov = Some (chunks_of text ws)
            \<and> window_chain (length text) sz ov 0 ws
            \<and> (\<forall>i < length text. \<exists>(a, b) \<in> set ws. a \<le> int i \<and> int i < b)
            \<and> (\<forall>c \<in> set (chunks_of text ws). length c \<le> nat sz)"
proof -
  have "0 < int (length text)" using assms(1) by simp
  from chunk_loop_chain [OF assms(2-4) _ this, of "[]"]
  obtain ws where r: "chunk_loop text sz ov 0 [] = Some (chunks_of text ws)"
    and ch: "window_chain (length text) sz ov 0 ws" by auto
  have "\<forall>i < length text. \<exists>(a, b) \<in> set ws. a \<le> int i \<and> int i < b"
    using window_chain_covers [OF ch assms(2)] by simp
  moreover have "\<forall>c \<in> set (chunks_of text ws). length c \<le> nat sz"
    using window_chain_lengths [OF ch] by blast
  ultimately show ?thesis using r ch assms(1) by (auto simp: chunk_text_def)
qed

lemma default_chunking_returns: "\<exists>cs. chunk_text text 1000 200 = Some cs"
proof (cases "text = []")
  case True
  then show ?thesis by (simp add: chunk_text_def)
next
  case False
  from chunk_loop_chain [of 200 1000 0 "text" "[]"] False show ?thesis
    by (auto simp: chunk_text_def)
qed

lemma short_text_single_chunk:
  assumes "text \<noteq> []" "0 \<le> ov" "int (length text) \<le> sz - ov"
  shows "chunk_text text sz ov = Some (if strip text \<noteq> [] then [strip text] else [])"
proof -
  have w: "window_end text sz 0 = sz" using assms by (simp add: window_end_def)
  have s: "slice text 0 sz = text" using assms by (simp add: slice_def adjust_def)
  have "chunk_loop text sz ov 0 [] = Some (if strip text \<noteq> [] then [strip text] else [])"
    using assms w s by (subst chunk_loop.simps) (simp add: Let_def)
  then show ?thesis using assms by (simp add: chunk_text_def)
qed

subsection \<open>Parameters with an overlap that is not below the size\<close>

text \<open>
  C2 fails on the code: \<open>chunk_text\<close> does not check its parameters, and with size 100
  and overlap 150 the text \<open>abc\<close> is never chunked. The first window ends at 100, the next
  start is \<open>100 - 150 = -50\<close>, and from then on every start lies below the length of the
  text, so the exit test of the loop never holds and the loop does not return. The same
  happens for every non-empty text and every overlap that is positive and not below the
  size (\<open>chunk_text_overlap_ge_size\<close>); only the empty text, which is tested first,
  returns.
\<close>

theorem chunk_text_overlap_above_size_loops:
  "chunk_text ''abc'' 100 150 = None"
  using overlap_ge_size_diverges [of 100 150 "''abc''"] by (simp add: chunk_text_def)

subsection \<open>Valid parameters that make no progress\<close>

text \<open>
  C3 fails on the code: with size 10 and overlap 9, which satisfy \<open>0 \<le> overlap < size\<close>,
  the text \<open>aaaaaaaa.aaa\<close> is never chunked. The first window is cut after the full stop
  at index 8, so it ends at 9, and the next window starts at \<open>9 - 9 = 0\<close> again: the start
  offset does not increase and the loop does not return. (For parameters with
  \<open>overlap \<le> size div 2 + 1\<close>, the defaults among them, \<open>chunk_loop_chain\<close> shows that
  the start offset increases in every iteration and that the loop returns.)
\<close>

theorem chunk_text_valid_parameters_loop:
  "chunk_text ''aaaaaaaa.aaa'' 10 9 = None"
  using chunk_loop_stuck_example by (simp add: chunk_text_def)

subsection \<open>Coverage\<close>

text \<open>
  C4: for every non-empty text, \<open>chunk_text\<close> with the default size 1000 and overlap 200
  returns, and its chunks are the trimmed, non-empty slices of a chain of windows that
  covers the text without gaps: the first window starts at 0, every further window starts
  200 characters before the end of the one before it, the last window reaches the end of
  the text, and so every position of the text lies in a window. Every chunk is at most
  1000 characters long (the sentence-boundary rule only shortens a window).
\<close>

theorem chunk_text_covers_text:
  assumes "text \<noteq> []"
  shows "\<exists>ws. chunk_text text 1000 200 = Some (chunks_of text ws)
            \<and> window_chain (length text) 1000 200 0 ws
            \<and> (\<forall>i < length text. \<exists>(a, b) \<in> set ws. a \<le> int i \<and> int i < b)
            \<and> (\<forall>c \<in> set (chunks_of text ws). length c \<le> 1000)"
  using chunk_text_covers_general [OF assms, of 200 1000] by simp

theorem chunk_text_covers_text_witness:
  "\<exists>ws. chunk_text ''First point. Second point!'' 1000 200
              = Some (chunks_of ''First point. Second point!'' ws)
            \<and> window_chain (length ''First point. Second point!'') 1000 200 0 ws
            \<and> (\<forall>i < length ''First point. Second point!''. \<exists>(a, b) \<in> set ws. a \<le> int i \<and> int i < b)
            \<and> (\<forall>c \<in> set (chunks_of ''First point. Second point!'' ws). length c \<le> 1000)"
  using chunk_text_covers_text [of "''First point. Second point!''"] by simp

section \<open>Batches of uploaded files\<close>

lemma process_document_returns: "\<exists>st. process_document env uploaded fid = Some st"
proof -
  have "\<And>t. \<exists>cs. chunk_text t 1000 200 = Some cs" by (rule default_chunking_returns)
  then have c: "\<And>t. chunk_text t 1000 200 \<noteq> None" by (metis option.distinct(1))
  show ?thesis
    by (auto simp: process_document_def Let_def c split: option.splits prod.splits)
qed

lemma process_document_file_id:
  "process_document env uploaded fid = Some (Success msg r) \<Longrightarrow> file_id (result_metadata r) = fid"
  by (auto simp: process_document_def Let_def split: option.splits prod.splits if_splits)

lemma process_multiple_loop_spec:
  "\<exists>outs. length outs = length files
      \<and> (\<forall>j < length files. process_document env (files ! j) (uuid4 env (i + j)) = Some (outs ! j))
      \<and> process_multiple_loop env files i docs metas cnt =
          Some (docs @ concat (map documents (successes outs)),
                fold (\<lambda>r. AList.update (file_id (result_metadata r)) (result_metadata r)) (successes outs) metas,
                cnt + length (successes outs))"
proof (induction files arbitrary: i docs metas cnt)
  case Nil
  then show ?case by simp
next
  case (Cons f fs)
  obtain st where st: "process_document env f (uuid4 env i) = Some st"
    using process_document_returns by blast
  show ?case
  proof (cases st)
    case (Failure msg)
    from Cons.IH [of "Suc i" docs metas cnt]
    obtain outs where l: "length outs = length fs"
      and p: "\<forall>j < length fs. process_document env (fs ! j) (uuid4 env (Suc i + j)) = Some (outs ! j)"
      and r: "process_multiple_loop env fs (Suc i) docs metas cnt =
          Some (docs @ concat (map documents (successes outs)),
                fold (\<lambda>r. AList.update (file_id (result_metadata r)) (result_metadata r)) (successes outs) metas,
                cnt + length (successes outs))" by blast
    have "\<forall>j < length (f # fs). process_document env ((f # fs) ! j) (uuid4 env (i + j)) = Some ((st # outs) ! j)"
    proof (intro allI impI)
      fix j assume "j < length (f # fs)"
      then show "process_document env ((f # fs) ! j) (uuid4 env (i + j)) = Some ((st # outs) ! j)"
        using st p by (cases j) simp_all
    qed
    moreover have "length (st # outs) = length (f # fs)" using l by simp
    moreover have "process_multiple_loop env (f # fs) i docs metas cnt =
          Some (docs @ concat (map documents (successes (st # outs))),
                fold (\<lambda>r. AList.update (file_id (result_metadata r)) (result_metadata r)) (successes (st # outs)) metas,
                cnt + length (successes (st # outs)))"
      using st Failure r by simp
    ultimately show ?thesis by blast
  next
    case (Success msg res)
    have fid: "file_id (result_metadata res) = uuid4 env i"
      using st Success process_document_file_id by blast
    from Cons.IH [of "Suc i" "docs @ documents res"
        "AList.update (uuid4 env i) (result_metadata res) metas" "Suc cnt"]
    obtain outs where l: "length outs = length fs"
      and p: "\<forall>j < length fs. process_document env (fs ! j) (uuid4 env (Suc i + j)) = Some (outs ! j)"
      and r: "process_multiple_loop env fs (Suc i) (docs @ documents res)
            (AList.update (uuid4 env i) (result_metadata res) metas) (Suc cnt) =
          Some ((docs @ documents res) @ concat (map documents (successes outs)),
                fold (\<lambda>r. AList.update (file_id (result_metadata r)) (result_metadata r)) (successes outs)
                  (AList.update (uuid4 env i) (result_metadata res) metas),
                Suc cnt + length (successes outs))" by blast
    have "\<forall>j < length (f # fs). process_document env ((f # fs) ! j) (uuid4 env (i + j)) = Some ((st # outs) ! j)"
    proof (intro allI impI)
      fix j assume "j < length (f # fs)"
      then show "process_document env ((f # fs) ! j) (uuid4 env (i + j)) = Some ((st # outs) ! j)"
        using st p by (cases j) simp_all
    qed
    moreover have "length (st # outs) = length (f # fs)" using l by simp
    moreover have "process_multiple_loop env (f # fs) i docs metas cnt =
          Some (docs @ concat (map documents (successes (st # outs))),
                fold (\<lambda>r. AList.update (file_id (result_metadata r)) (result_metadata r)) (successes (st # outs)) metas,
                cnt + length (successes (st # outs)))"
      using st Success r fid by simp
    ultimately show ?thesis by blast
  qed
qed

text \<open>
  C9, as the code has it: \<open>process_multiple_documents\<close> processes every file of a batch,
  each with its own identifier, and a file that fails does not stop the files after it.
  Every file has an outcome; when at least one file succeeds the batch result is the
  success \<open>Processed k/n documents successfully.\<close> (\<open>k\<close> successes out of \<open>n\<close> files) with
  all documents of the successful files, in order, and their metadata; when no file
  succeeds the result is the failure \<open>Failed to process any documents.\<close>, with no count
  and no documents.
\<close>

theorem batch_isolates_files:
  "\<exists>outs. length outs = length files
      \<and> (\<forall>j < length files. process_document env (files ! j) (uuid4 env j) = Some (outs ! j))
      \<and> process_multiple_documents env files = Some (batch_of (length files) outs)"
proof -
  from process_multiple_loop_spec [of files env 0 "[]" "[]" 0]
  obtain outs where l: "length outs = length files"
    and p: "\<forall>j < length files. process_document env (files ! j) (uuid4 env j) = Some (outs ! j)"
    and r: "process_multiple_loop env files 0 [] [] 0 =
          Some (concat (map documents (successes outs)),
                fold (\<lambda>r. AList.update (file_id (result_metadata r)) (result_metadata r)) (successes outs) [],
                length (successes outs))" by auto
  have "process_multiple_documents env files = Some (batch_of (length files) outs)"
    using r by (simp add: process_multiple_documents_def batch_of_def Let_def)
  with l p show ?thesis by blast
qed

lemma strip_alpha_example: "strip ''Alpha beta.'' = ''Alpha beta.''"
  by (simp add: strip_def isspace_def)

lemma strip_gamma_example: "strip ''Gamma.'' = ''Gamma.''"
  by (simp add: strip_def isspace_def)

lemma process_text_file_example:
  "process_document example_env (example_file ''a.txt'' ''Alpha beta.'') fid =
     Some (Success ''Document processed! Created 1 chunks.''
       \<lparr>documents = [\<lparr>page_content = ''Alpha beta.'',
                       metadata = \<lparr>source = Some ''a.txt'', page_number = Some 1,
                                   chunk_id = Some 0, file_type = Some ''txt''\<rparr>\<rparr>],
        result_metadata = \<lparr>file_id = fid, md_filename = ''a.txt'', md_file_type = ''txt'',
           upload_time = ''2024-01-01T00:00:00'', total_chunks = 1,
           page_info = [\<lparr>page = 1, content = ''Alpha beta.''\<rparr>],
           summary = ''A short summary.''\<rparr>\<rparr>)"
  using short_text_single_chunk [of "''Alpha beta.''" 200 1000]
  by (simp add: process_document_def example_env_def example_file_def endswith_def
      suffix_to_prefix strip_alpha_example make_documents_def extension_def generate_summary_def
      str_int_def str_nat.simps digit_char_def enumerate_eq_zip)

lemma process_unsupported_file_example:
  "process_document example_env (example_file ''b.docx'' ''binary'') fid =
     Some (Failure ''Unsupported file type. Please upload PDF or TXT files.'')"
  by (simp add: process_document_def example_env_def example_file_def endswith_def suffix_to_prefix)

lemma process_pdf_file_example:
  "process_document example_env (example_file ''c.pdf'' ''Gamma.'') fid =
     Some (Success ''Document processed! Created 1 chunks.''
       \<lparr>documents = [\<lparr>page_content = ''Gamma.'',
                       metadata = \<lparr>source = Some ''c.pdf'', page_number = Some 1,
                                   chunk_id = Some 0, file_type = Some ''pdf''\<rparr>\<rparr>],
        result_metadata = \<lparr>file_id = fid, md_filename = ''c.pdf'', md_file_type = ''pdf'',
           upload_time = ''2024-01-01T00:00:00'', total_chunks = 1,
           page_info = [\<lparr>page = 1, content = ''Gamma.''\<rparr>],
           summary = ''A short summary.''\<rparr>\<rparr>)"
  using short_text_single_chunk [of "''Gamma.''" 200 1000]
  by (simp add: process_document_def example_env_def example_file_def endswith_def
      suffix_to_prefix strip_gamma_example make_documents_def extension_def generate_summary_def
      str_int_def str_nat.simps digit_char_def enumerate_eq_zip)

lemma uuid4_example: "uuid4 example_env 0 = ''id-0''" "uuid4 example_env 1 = ''id-1''" "uuid4 example_env 2 = ''id-2''"
  by (simp_all add: example_env_def str_int_def str_nat.simps digit_char_def)

lemma list_of_three: "length xs = 3 \<Longrightarrow> xs = [xs ! 0, xs ! 1, xs ! 2]"
  by (auto simp: list_eq_iff_nth_eq less_Suc_eq numeral_3_eq_3 numeral_2_eq_2)

theorem batch_isolates_files_witness:
  "\<exists>r. process_multiple_documents example_env
         [example_file ''a.txt'' ''Alpha beta.'', example_file ''b.docx'' ''binary'',
          example_file ''c.pdf'' ''Gamma.'']
       = Some (Success ''Processed 2/3 documents successfully.'' r)
     \<and> map page_content (all_documents r) = [''Alpha beta.'', ''Gamma.'']
     \<and> map fst (all_metadata r) = [''id-0'', ''id-2'']"
proof -
  let ?files = "[example_file ''a.txt'' ''Alpha beta.'', example_file ''b.docx'' ''binary'',
          example_file ''c.pdf'' ''Gamma.'']"
  from batch_isolates_files [of ?files example_env]
  obtain outs where l0: "length outs = length ?files"
    and p: "\<forall>j < length ?files.
        process_document example_env (?files ! j) (uuid4 example_env j) = Some (outs ! j)"
    and r0: "process_multiple_documents example_env ?files = Some (batch_of (length ?files) outs)"
    by blast
  have l: "length outs = 3" using l0 by simp
  have r: "process_multiple_documents example_env ?files = Some (batch_of 3 outs)"
    using r0 by (simp add: numeral_3_eq_3)
  have f0: "process_document example_env (?files ! 0) (uuid4 example_env 0) = Some (outs ! 0)"
    by (rule p [rule_format]) simp
  have f1: "process_document example_env (?files ! 1) (uuid4 example_env 1) = Some (outs ! 1)"
    by (rule p [rule_format]) simp
  have f2: "process_document example_env (?files ! 2) (uuid4 example_env 2) = Some (outs ! 2)"
    by (rule p [rule_format]) simp
  have o: "outs ! 0 = the (process_document example_env (?files ! 0) (uuid4 example_env 0))"
    "outs ! 1 = the (process_document example_env (?files ! 1) (uuid4 example_env 1))"
    "outs ! 2 = the (process_document example_env (?files ! 2) (uuid4 example_env 2))"
    unfolding f0 f1 f2 by simp_all
  have "outs = [outs ! 0, outs ! 1, outs ! 2]" using l by (rule list_of_three)
  then have "batch_of 3 outs = batch_of 3 [outs ! 0, outs ! 1, outs ! 2]" by simp
  with r show ?thesis
    unfolding o
    by (simp add: process_text_file_example process_unsupported_file_example process_pdf_file_example uuid4_example batch_of_def str_int_def str_nat.simps digit_char_def)
qed

text \<open>
  The claim as it is written fails for a batch in which no file succeeds: the result
  does not report a count of successes out of the total.
\<close>

theorem batch_all_failed_counterexample:
  "process_multiple_documents example_env [example_file ''b.docx'' ''binary'']
     = Some (Failure ''Failed to process any documents.'')"
  by (simp add: process_multiple_documents_def process_unsupported_file_example)


end
